theory Spec2Isabelle
  imports Main "HOL-Library.Sublist"
begin

section \<open>Values, effects and the execution of asynchronous code\<close>

text \<open>
  The command-line front end is glue around collaborators: the terminal logger, the
  colouring library, the version checker, the project library, the command-line parser.
  A run is modelled by what it does to them, in order: a list of effects, followed by
  the value the code returns or the error it throws.
\<close>

text \<open>
  A thrown error. The error boundary tells errors apart by marker fields
  (\<open>_isCommandError\<close>, \<open>_isApiError\<close>, \<open>isXDLError\<close>), and prints
  \<open>message\<close> and \<open>stack\<close>.
\<close>

record js_error =
  isCommandError :: bool
  isApiError :: bool
  isXDLError :: bool
  message :: string
  stack :: string

datatype effect =
    Log string
  | LogWarn string
  | LogError string
  | LogRaw string
  | ConsoleLog string
  | CrayonGreenError string
  | CrayonGrayError string
  | SetLogConfigRaw
  | SetConfigOffline
  | AnalyticsFlush
  | ProcessExit int
  | OutputHelp string
  | StdoutWrite string
  | ExecuteSubCommand string
  | SpinnerStart
  | SpinnerStop
  | CheckForExpUpdate
  | LoginOrRegisterIfLoggedOut
  | EnsureLoggedIn
  | ProcessCwd
  | NewPackagerLogsStream string
  | AttachLoggerStream string
  | CurrentStatus string
  | ValidateLowLatency string
  | InstallExitHooks string
  | StartAsync string bool
  | GetRecipient "string option"
  | PublishAsync string
  | SendUrlAsync string string
  | StopAsync string
  | RunAction string
  | ConsoleError string
  | NewProgressBar
  | BarTick int
  | SetBundleProgressBar bool

text \<open>
  An asynchronous computation that has run to its end: the effects it had, and either the
  error it threw (\<open>Inl\<close>) or its value (\<open>Inr\<close>).
\<close>

type_synonym 'a run = "effect list \<times> (js_error + 'a)"

definition done_with :: "'a \<Rightarrow> 'a run" where
  "done_with x = ([], Inr x)"

definition throw :: "js_error \<Rightarrow> 'a run" where
  "throw e = ([], Inl e)"

definition emit :: "effect \<Rightarrow> unit run" where
  "emit ev = ([ev], Inr ())"

text \<open>A call to a collaborator: the call is an effect, its outcome is given.\<close>

definition call :: "effect \<Rightarrow> js_error + 'a \<Rightarrow> 'a run" where
  "call ev outcome = ([ev], outcome)"

text \<open>\<open>await m; k\<close>: the continuation runs only when \<open>m\<close> did not throw.\<close>

definition seq :: "'a run \<Rightarrow> ('a \<Rightarrow> 'b run) \<Rightarrow> 'b run" where
  "seq m k =
     (case snd m of
        Inl e \<Rightarrow> (fst m, Inl e)
      | Inr x \<Rightarrow> (fst m @ fst (k x), snd (k x)))"

text \<open>\<open>if (c) { m }\<close> as a statement.\<close>

definition when_do :: "bool \<Rightarrow> unit run \<Rightarrow> unit run" where
  "when_do c m = (if c then m else done_with ())"

text \<open>\<open>try { m } catch (e) {}\<close>: the effects stay, the error is dropped.\<close>

definition try_swallow :: "'a run \<Rightarrow> unit run" where
  "try_swallow m = (fst m, Inr ())"

subsection \<open>Terminal colours\<close>

text \<open>
  The colouring library wraps a string in the ANSI escape sequences of the style.
\<close>

definition ansi :: "string \<Rightarrow> string \<Rightarrow> string \<Rightarrow> string" where
  "ansi opening closing s = CHR 0x1B # ''['' @ opening @ ''m'' @ s @ CHR 0x1B # ''['' @ closing @ ''m''"

definition crayon_red :: "string \<Rightarrow> string" where
  "crayon_red = ansi ''31'' ''39''"


definition crayon_grey :: "string \<Rightarrow> string" where
  "crayon_grey = ansi ''90'' ''39''"

definition crayon_underline :: "string \<Rightarrow> string" where
  "crayon_underline = ansi ''4'' ''24''"

section \<open>The update checker\<close>

text \<open>What the version-check collaborator answers: \<open>{ state, current, latest }\<close>.\<close>

record update_info =
  state :: string
  current :: string
  latest :: string

definition update_message :: "update_info \<Rightarrow> string" where
  "update_message u =
     ''There is a new version of exp available ('' @ latest u @ '').'' @ [CHR 0x0A] @
     ''You are currently using exp '' @ current u @ [CHR 0x0A] @
     ''Run `npm install -g exp` to get the latest version''"

text \<open>The \<open>switch (state)\<close> of \<open>checkForUpdateAsync\<close>.\<close>

definition update_switch :: "update_info \<Rightarrow> unit run" where
  "update_switch u =
     (if state u = ''up-to-date'' then done_with ()
      else if state u = ''out-of-date'' then emit (CrayonGreenError (update_message u))
      else if state u = ''ahead-of-published'' then done_with ()
      else emit (LogError ''Confused about what version of exp you have?''))"

text \<open>
  \<open>checkForUpdateAsync\<close>: awaits the collaborator (which may reject), then maps the
  state it answered.
\<close>

definition checkForUpdateAsync :: "js_error + update_info \<Rightarrow> unit run" where
  "checkForUpdateAsync answer = seq (call CheckForExpUpdate answer) update_switch"

section \<open>The action wrapper\<close>

text \<open>The parsed options of a command, as the wrappers and the handlers read them.\<close>

record options =
  output_opt :: "string option"
  offline :: bool
  nonInteractive :: bool
  quiet :: bool
  sendTo :: "string option"

datatype doctor_status = NO_ISSUES | WARNING | FATAL

record publish_result =
  url :: string

text \<open>
  The collaborators and the process environment of one invocation: for each call the
  wrappers make, what it answers or the error it throws.
\<close>

record world =
  EXPO_DEBUG :: bool
  cwd :: string
  checkForExpUpdateAsync :: "js_error + update_info"
  flush :: "js_error + unit"
  loginOrRegisterIfLoggedOut :: "js_error + unit"
  ensureLoggedInAsync :: "js_error + unit"
  currentStatus :: "string \<Rightarrow> js_error + string"
  validateLowLatencyAsync :: "string \<Rightarrow> js_error + doctor_status"
  startAsync :: "string \<Rightarrow> js_error + unit"
  getRecipient :: "string option \<Rightarrow> js_error + string option"
  publishAsync :: "string \<Rightarrow> js_error + publish_result"
  sendUrlAsync :: "string \<Rightarrow> string \<Rightarrow> js_error + unit"
  stopAsync :: "string \<Rightarrow> js_error + unit"

text \<open>How an invocation of a wrapped action ends: it returns, or the process exits.\<close>

datatype outcome = Completed | Exited int

text \<open>The \<open>catch (err)\<close> block of \<open>asyncAction\<close>.\<close>

definition error_boundary :: "bool \<Rightarrow> js_error \<Rightarrow> effect list" where
  "error_boundary debug err =
     (if isCommandError err then [LogError (message err)]
      else if isApiError err then [LogError (crayon_red (message err))]
      else if isXDLError err then [LogError (message err)]
      else [LogError (message err),
            if debug then CrayonGrayError (stack err)
            else LogError (crayon_grey ''Set EXPO_DEBUG=true in your env to view the stack trace.'')])
     @ [ProcessExit 1]"

text \<open>The \<open>try\<close> block of \<open>asyncAction\<close>, up to and including the telemetry flush.\<close>

definition guarded_body :: "world \<Rightarrow> ('p \<Rightarrow> options \<Rightarrow> 'a run) \<Rightarrow> 'p \<Rightarrow> options \<Rightarrow> unit run" where
  "guarded_body w asyncFn p opts =
     seq (when_do (output_opt opts = Some ''raw'') (emit SetLogConfigRaw)) (\<lambda>_.
     seq (when_do (offline opts) (emit SetConfigOffline)) (\<lambda>_.
     seq (asyncFn p opts) (\<lambda>_.
     call AnalyticsFlush (flush w))))"

text \<open>
  The action that \<open>asyncAction(asyncFn, skipUpdateCheck)\<close> installs, invoked with the
  positional arguments \<open>p\<close> and the options.
\<close>

definition asyncAction ::
  "world \<Rightarrow> ('p \<Rightarrow> options \<Rightarrow> 'a run) \<Rightarrow> bool \<Rightarrow> 'p \<Rightarrow> options \<Rightarrow> effect list \<times> outcome" where
  "asyncAction w asyncFn skipUpdateCheck p opts =
     (let pre = when_do (\<not> skipUpdateCheck)
                  (try_swallow (checkForUpdateAsync (checkForExpUpdateAsync w)));
          body = guarded_body w asyncFn p opts
      in case snd body of
           Inr _ \<Rightarrow> (fst pre @ fst body, Completed)
         | Inl err \<Rightarrow> (fst pre @ fst body @ error_boundary (EXPO_DEBUG w) err, Exited 1))"

section \<open>The project-directory action wrapper\<close>

text \<open>\<open>new Error(msg)\<close>: an error with none of the three markers.\<close>

definition new_Error :: "string \<Rightarrow> js_error" where
  "new_Error msg =
     \<lparr>isCommandError = False, isApiError = False, isXDLError = False,
      message = msg, stack = ''Error: '' @ msg\<rparr>"

text \<open>
  \<open>path.resolve(cwd, dir)\<close> on POSIX paths: an absolute \<open>dir\<close> stands alone, a relative
  one is appended to \<open>cwd\<close>; then \<open>.\<close> and empty segments go, \<open>..\<close> drops the segment
  before it.
\<close>

fun split_segments :: "string \<Rightarrow> string \<Rightarrow> string list" where
  "split_segments cur [] = [rev cur]"
| "split_segments cur (c # cs) =
     (if c = CHR ''/'' then rev cur # split_segments [] cs else split_segments (c # cur) cs)"

fun normalize_segments :: "string list \<Rightarrow> string list \<Rightarrow> string list" where
  "normalize_segments acc [] = rev acc"
| "normalize_segments acc (seg # segs) =
     (if seg = [] \<or> seg = ''.'' then normalize_segments acc segs
      else if seg = ''..'' then normalize_segments (tl acc) segs
      else normalize_segments (seg # acc) segs)"

definition path_resolve :: "string \<Rightarrow> string \<Rightarrow> string" where
  "path_resolve base dir =
     (let full = (if dir \<noteq> [] \<and> hd dir = CHR ''/'' then dir else base @ ''/'' @ dir);
          segs = normalize_segments [] (split_segments [] full)
      in if segs = [] then ''/'' else concat (map (\<lambda>seg. CHR ''/'' # seg) segs))"

text \<open>The login gate and the session assertion.\<close>

definition auth_steps :: "world \<Rightarrow> bool \<Rightarrow> options \<Rightarrow> unit run" where
  "auth_steps w skipAuthCheck opts =
     seq (when_do (\<not> skipAuthCheck \<and> \<not> nonInteractive opts \<and> \<not> offline opts)
            (call LoginOrRegisterIfLoggedOut (loginOrRegisterIfLoggedOut w))) (\<lambda>_.
     when_do (\<not> skipAuthCheck) (call EnsureLoggedIn (ensureLoggedInAsync w)))"

text \<open>\<open>if (!projectDir) ... else ...\<close>: the directory the command works on.\<close>

definition resolve_projectDir :: "world \<Rightarrow> string option \<Rightarrow> string run" where
  "resolve_projectDir w projectDir =
     seq (emit ProcessCwd) (\<lambda>_.
     done_with (case projectDir of
                  None \<Rightarrow> cwd w
                | Some d \<Rightarrow> if d = [] then cwd w else path_resolve (cwd w) d))"

text \<open>The log sink and the logger stream, both bound to the resolved directory.\<close>

definition attach_logs :: "string \<Rightarrow> unit run" where
  "attach_logs dir = seq (emit (NewPackagerLogsStream dir)) (\<lambda>_. emit (AttachLoggerStream dir))"

text \<open>Project validation, unless skipped or the project is already running.\<close>

definition validate_project :: "world \<Rightarrow> bool \<Rightarrow> string \<Rightarrow> unit run" where
  "validate_project w skipProjectValidation dir =
     seq (if skipProjectValidation then done_with False
          else seq (call (CurrentStatus dir) (currentStatus w dir))
                 (\<lambda>status. done_with (status \<noteq> ''running''))) (\<lambda>needed.
     when_do needed
       (seq (emit (Log ''Making sure project is set up correctly...'')) (\<lambda>_.
        seq (emit SpinnerStart) (\<lambda>_.
        seq (call (ValidateLowLatency dir) (validateLowLatencyAsync w dir)) (\<lambda>status.
        if status = FATAL
        then throw (new_Error
               ''There is an error with your project. See above logs for information.'')
        else seq (emit SpinnerStop) (\<lambda>_. emit (Log ''Your project looks good!'')))))))"

text \<open>
  Everything the function given to \<open>asyncAction\<close> by \<open>asyncActionProjectDir\<close> does before
  its last statement; it yields the resolved directory.
\<close>

definition projectDir_steps :: "world \<Rightarrow> bool \<Rightarrow> bool \<Rightarrow> string option \<Rightarrow> options \<Rightarrow> string run" where
  "projectDir_steps w skipProjectValidation skipAuthCheck projectDir opts =
     seq (try_swallow (checkForUpdateAsync (checkForExpUpdateAsync w))) (\<lambda>_.
     seq (auth_steps w skipAuthCheck opts) (\<lambda>_.
     seq (resolve_projectDir w projectDir) (\<lambda>dir.
     seq (attach_logs dir) (\<lambda>_.
     seq (validate_project w skipProjectValidation dir) (\<lambda>_.
     done_with dir)))))"

text \<open>
  The action that \<open>asyncActionProjectDir(asyncFn, skipProjectValidation, skipAuthCheck)\<close>
  installs: \<open>asyncAction\<close> around the steps above followed by
  \<open>return asyncFn(projectDir, ...args)\<close>, with the update check of \<open>asyncAction\<close> skipped.
\<close>

definition asyncActionProjectDir ::
  "world \<Rightarrow> (string \<Rightarrow> options \<Rightarrow> 'a run) \<Rightarrow> bool \<Rightarrow> bool \<Rightarrow> string option \<Rightarrow> options
     \<Rightarrow> effect list \<times> outcome" where
  "asyncActionProjectDir w asyncFn skipProjectValidation skipAuthCheck =
     asyncAction w
       (\<lambda>projectDir opts.
          seq (projectDir_steps w skipProjectValidation skipAuthCheck projectDir opts)
            (\<lambda>dir. asyncFn dir opts))
       True"

section \<open>The publish command\<close>

definition action :: "world \<Rightarrow> string \<Rightarrow> options \<Rightarrow> publish_result run" where
  "action w projectDir opts =
     seq (call (CurrentStatus projectDir) (currentStatus w projectDir)) (\<lambda>status.
     seq (if status \<noteq> ''running''
          then seq (emit (Log
                 ''Unable to find an existing exp instance for this directory, starting a new one...'')) (\<lambda>_.
               seq (emit (InstallExitHooks projectDir)) (\<lambda>_.
               seq (call (StartAsync projectDir (\<not> quiet opts)) (startAsync w projectDir)) (\<lambda>_.
               done_with True)))
          else done_with False) (\<lambda>startedOurOwn.
     seq (call (GetRecipient (sendTo opts)) (getRecipient w (sendTo opts))) (\<lambda>recipient.
     seq (emit (Log ''Publishing...'')) (\<lambda>_.
     seq (when_do (quiet opts) (emit SpinnerStart)) (\<lambda>_.
     seq (call (PublishAsync projectDir) (publishAsync w projectDir)) (\<lambda>result.
     seq (when_do (quiet opts) (emit SpinnerStop)) (\<lambda>_.
     seq (emit (Log ''Published'')) (\<lambda>_.
     seq (emit (Log (''Your URL is'' @ [CHR 0x0A, CHR 0x0A] @ crayon_underline (url result)
                       @ [CHR 0x0A]))) (\<lambda>_.
     seq (emit (LogRaw (url result))) (\<lambda>_.
     seq (case recipient of
            None \<Rightarrow> done_with ()
          | Some r \<Rightarrow> when_do (r \<noteq> [])
                       (call (SendUrlAsync (url result) r) (sendUrlAsync w (url result) r))) (\<lambda>_.
     seq (when_do startedOurOwn (call (StopAsync projectDir) (stopAsync w projectDir))) (\<lambda>_.
     done_with result))))))))))))"

section \<open>The bundle progress indicator\<close>

text \<open>
  The progress bar of the terminal library: \<open>tick(len)\<close> adds \<open>len\<close> to \<open>curr\<close> and
  marks the bar complete once \<open>curr\<close> has reached \<open>total\<close>.
\<close>

record ProgressBar =
  curr :: int
  total :: int
  complete :: bool



text \<open>
  The state the callbacks of the log sink share: the variable \<open>bar\<close> of the enclosing
  function, and what the callbacks have done to the bar and the logger so far.
\<close>

record sink =
  bar :: "ProgressBar option"
  out :: "effect list"








section \<open>Commands and the command-line parser\<close>

text \<open>
  An option of the command-line parser. Its constructor notes whether the flags announce
  a required (\<open><...>\<close>) or an optional (\<open>[...]\<close>) value and splits them at blanks, commas
  and bars; the first piece is the short flag when a second piece follows that is not a
  value placeholder, and the next piece is the long flag.
\<close>

record cmd_option =
  flags :: string
  opt_required :: bool
  opt_optional :: bool
  short :: "string option"
  long :: "string option"
  opt_description :: string

fun split_flags :: "string \<Rightarrow> bool \<Rightarrow> string \<Rightarrow> string list" where
  "split_flags cur in_sep [] = [rev cur]"
| "split_flags cur in_sep (c # cs) =
     (if c = CHR '' '' \<or> c = CHR '','' \<or> c = CHR ''|''
      then (if in_sep then split_flags [] True cs else rev cur # split_flags [] True cs)
      else split_flags (c # cur) False cs)"

definition Option :: "string \<Rightarrow> string \<Rightarrow> cmd_option" where
  "Option fl desc =
     (let pieces = split_flags [] False fl;
          has_short = (length pieces > 1 \<and>
                       \<not> (pieces ! 1 \<noteq> [] \<and> hd (pieces ! 1) \<in> {CHR ''['', CHR ''<''}));
          rest = (if has_short then tl pieces else pieces)
      in \<lparr>flags = fl,
          opt_required = (CHR ''<'' \<in> set fl),
          opt_optional = (CHR ''['' \<in> set fl),
          short = (if has_short then Some (hd pieces) else None),
          long = (case rest of [] \<Rightarrow> None | l # _ \<Rightarrow> Some l),
          opt_description = desc\<rparr>)"

text \<open>\<open>Option.prototype.is\<close>: does the argument name this option?\<close>

definition is_flag :: "cmd_option \<Rightarrow> string \<Rightarrow> bool" where
  "is_flag opt arg = (short opt = Some arg \<or> long opt = Some arg)"

text \<open>\<open>str.replace(pat, '')\<close>: the first occurrence of the pattern goes.\<close>

fun remove_first :: "string \<Rightarrow> string \<Rightarrow> string" where
  "remove_first pat [] = []"
| "remove_first pat (c # cs) =
     (if prefix pat (c # cs) then drop (length pat) (c # cs) else c # remove_first pat cs)"

text \<open>\<open>Option.prototype.name\<close>: the long flag without \<open>--\<close> and \<open>no-\<close>.\<close>

definition option_name :: "cmd_option \<Rightarrow> string" where
  "option_name opt =
     remove_first ''no-'' (remove_first ''--'' (case long opt of None \<Rightarrow> [] | Some l \<Rightarrow> l))"

text \<open>An argument a command expects: \<open><name>\<close> is required, \<open>[name]\<close> is not.\<close>

record expected_arg =
  arg_required :: bool
  arg_name :: string
  arg_variadic :: bool

definition parseExpectedArg :: "string \<Rightarrow> expected_arg option" where
  "parseExpectedArg arg =
     (let bracketed = (arg \<noteq> [] \<and> hd arg \<in> {CHR ''<'', CHR ''[''});
          nm = (if bracketed then butlast (tl arg) else []);
          variadic = (length nm > 3 \<and> drop (length nm - 3) nm = ''...'');
          nm' = (if variadic then take (length nm - 3) nm else nm)
      in if nm' = [] then None
         else Some \<lparr>arg_required = (arg \<noteq> [] \<and> hd arg = CHR ''<''), arg_name = nm',
                    arg_variadic = variadic\<rparr>)"

text \<open>The action a command was given, by the wrapper that installed it.\<close>

datatype wrapped_action =
    AsyncAction string bool
  | AsyncActionProjectDir string bool bool

text \<open>
  A command. \<open>cmd_listens\<close> holds the names under which its action was registered with the
  program when \<open>action\<close> was called: the name, and the alias if one was set by then.
\<close>

record command =
  cmd_name :: string
  cmd_args :: "expected_arg list"
  cmd_alias :: "string option"
  cmd_description :: string
  cmd_options :: "cmd_option list"
  cmd_action :: "wrapped_action option"
  cmd_listens :: "string list"

record program =
  prog_name :: string
  prog_version :: string
  prog_options :: "cmd_option list"
  commands :: "command list"

text \<open>The chained methods of a command under construction.\<close>

fun split_blanks :: "string \<Rightarrow> bool \<Rightarrow> string \<Rightarrow> string list" where
  "split_blanks cur in_sep [] = [rev cur]"
| "split_blanks cur in_sep (c # cs) =
     (if c = CHR '' ''
      then (if in_sep then split_blanks [] True cs else rev cur # split_blanks [] True cs)
      else split_blanks (c # cur) False cs)"

definition command :: "string \<Rightarrow> command" where
  "command nameAndArgs =
     (let pieces = split_blanks [] False nameAndArgs
      in \<lparr>cmd_name = hd pieces, cmd_args = List.map_filter parseExpectedArg (tl pieces),
          cmd_alias = None, cmd_description = [], cmd_options = [], cmd_action = None,
          cmd_listens = []\<rparr>)"

definition alias_cmd :: "string \<Rightarrow> command \<Rightarrow> command" where
  "alias_cmd a c = c\<lparr>cmd_alias := Some a\<rparr>"

definition description :: "string \<Rightarrow> command \<Rightarrow> command" where
  "description d c = c\<lparr>cmd_description := d\<rparr>"

definition option :: "string \<Rightarrow> string \<Rightarrow> command \<Rightarrow> command" where
  "option fl desc c = c\<lparr>cmd_options := cmd_options c @ [Option fl desc]\<rparr>"


definition allowNonInteractive :: "command \<Rightarrow> command" where
  "allowNonInteractive =
     option ''--non-interactive''
       ''Fails if an interactive prompt would be required to continue.''"

text \<open>
  \<open>Command.prototype.action\<close>: the listener is registered under the name and, if an alias
  is set at this moment, under the alias.
\<close>

definition action_cmd :: "wrapped_action \<Rightarrow> command \<Rightarrow> command" where
  "action_cmd fn c =
     c\<lparr>cmd_action := Some fn,
       cmd_listens := cmd_listens c @ cmd_name c #
         (case cmd_alias c of None \<Rightarrow> [] | Some a \<Rightarrow> if a \<noteq> [] then [a] else [])\<rparr>"

definition with_asyncAction :: "string \<Rightarrow> bool \<Rightarrow> command \<Rightarrow> command" where
  "with_asyncAction asyncFn skipUpdateCheck = action_cmd (AsyncAction asyncFn skipUpdateCheck)"

definition with_asyncActionProjectDir :: "string \<Rightarrow> bool \<Rightarrow> bool \<Rightarrow> command \<Rightarrow> command" where
  "with_asyncActionProjectDir asyncFn skipProjectValidation skipAuthCheck =
     action_cmd (AsyncActionProjectDir asyncFn skipProjectValidation skipAuthCheck)"

text \<open>
  \<open>program.command(...).m1(...).m2(...)\<close>: the new command, with the chained methods
  applied from left to right, is one more command of the program.
\<close>

definition chained :: "command \<Rightarrow> (command \<Rightarrow> command) list \<Rightarrow> program \<Rightarrow> program" where
  "chained c methods prog = prog\<lparr>commands := commands prog @ [fold (\<lambda>m x. m x) methods c]\<rparr>"


text \<open>The default export of \<open>commands/login.js\<close>.\<close>

definition login_default :: "program \<Rightarrow> program" where
  "login_default =
     chained (command ''login'')
       [alias_cmd ''signin'',
        description ''Login to Expo'',
        option ''-u, --username [string]'' ''Username'',
        option ''-p, --password [string]'' ''Password'',
        option ''-t, --token [string]'' ''Token'',
        option ''--github'' ''Login with Github'',
        allowNonInteractive,
        with_asyncAction ''login'' False]"

text \<open>The default export of the publish command's module.\<close>

definition publish_default :: "program \<Rightarrow> program" where
  "publish_default =
     chained (command ''publish [project-dir]'')
       [alias_cmd ''p'',
        description ''Publishes your project to exp.host'',
        option ''-q, --quiet'' ''Suppress verbose output from the React Native packager.'',
        option ''-s, --send-to [dest]'' ''A phone number or e-mail address to send a link to'',
        allowNonInteractive,
        with_asyncActionProjectDir ''action'' True False]"

subsection \<open>Parsing the command line\<close>

text \<open>
  The parser of the command-line library (its release 2.11), as far as the entry point
  drives it: \<open>normalize\<close>, \<open>parseOptions\<close>, \<open>parseArgs\<close>, the listener that \<open>action\<close>
  registers, and the end of \<open>parse\<close>. A step of the parser either goes on with a value or
  has ended the process (\<open>None\<close>). The values that options assign are not tracked, and
  neither are executable sub-commands declared with a description, which no module of
  the repository declares.
\<close>

type_synonym 'a parsing = "effect list \<times> 'a option"

definition optionFor :: "cmd_option list \<Rightarrow> string \<Rightarrow> cmd_option option" where
  "optionFor opts arg = find (\<lambda>opt. is_flag opt arg) opts"

text \<open>
  \<open>normalize\<close>: joined short flags are split, \<open>--abc=def\<close> becomes \<open>--abc def\<close>; the value
  of an option that requires one is left alone, and so is everything from \<open>--\<close> on.
\<close>

fun normalize_argv :: "cmd_option list \<Rightarrow> string option \<Rightarrow> string list \<Rightarrow> string list" where
  "normalize_argv opts prev [] = []"
| "normalize_argv opts prev (arg # rest) =
     (if arg = ''--'' then arg # rest
      else if (case prev of
                 None \<Rightarrow> False
               | Some p \<Rightarrow> (case optionFor opts p of None \<Rightarrow> False | Some opt \<Rightarrow> opt_required opt))
      then arg # normalize_argv opts (Some arg) rest
      else if length arg > 1 \<and> hd arg = CHR ''-'' \<and> arg ! 1 \<noteq> CHR ''-''
      then map (\<lambda>c. [CHR ''-'', c]) (tl arg) @ normalize_argv opts (Some arg) rest
      else if take 2 arg = ''--'' \<and> CHR ''='' \<in> set arg
      then takeWhile (\<lambda>c. c \<noteq> CHR ''='') arg # tl (dropWhile (\<lambda>c. c \<noteq> CHR ''='') arg) #
           normalize_argv opts (Some arg) rest
      else arg # normalize_argv opts (Some arg) rest)"

definition unknownOption :: "string \<Rightarrow> effect list" where
  "unknownOption flag =
     [ConsoleError [], ConsoleError (''  error: unknown option `'' @ flag @ [CHR 0x27]),
      ConsoleError [], ProcessExit 1]"

definition optionMissingArgument :: "cmd_option \<Rightarrow> effect list" where
  "optionMissingArgument opt =
     [ConsoleError [],
      ConsoleError (''  error: option `'' @ flags opt @ [CHR 0x27] @ '' argument missing''),
      ConsoleError [], ProcessExit 1]"

definition missingArgument :: "string \<Rightarrow> effect list" where
  "missingArgument nm =
     [ConsoleError [], ConsoleError (''  error: missing required argument `'' @ nm @ [CHR 0x27]),
      ConsoleError [], ProcessExit 1]"

definition variadicArgNotLast :: "string \<Rightarrow> effect list" where
  "variadicArgNotLast nm =
     [ConsoleError [],
      ConsoleError (''  error: variadic arguments must be last `'' @ nm @ [CHR 0x27]),
      ConsoleError [], ProcessExit 1]"

text \<open>
  The event \<open>option:<name>\<close>. The program, once \<open>version\<close> was called, answers the event
  of the option named \<open>version\<close> by printing the version and exiting with code 0; every
  other listener only stores the value.
\<close>

definition emit_option :: "string option \<Rightarrow> cmd_option \<Rightarrow> unit parsing" where
  "emit_option ver opt =
     (case ver of
        None \<Rightarrow> ([], Some ())
      | Some v \<Rightarrow>
          if option_name opt = ''version''
          then ([StdoutWrite (v @ [CHR 0x0A]), ProcessExit 0], None)
          else ([], Some ()))"

text \<open>Putting an operand, or unknown options, in front of what the rest of the scan finds.\<close>

definition with_arg :: "string \<Rightarrow> (string list \<times> string list) parsing \<Rightarrow> (string list \<times> string list) parsing" where
  "with_arg arg r = (fst r, map_option (\<lambda>(args, unknown). (arg # args, unknown)) (snd r))"

definition with_unknown :: "string list \<Rightarrow> (string list \<times> string list) parsing \<Rightarrow> (string list \<times> string list) parsing" where
  "with_unknown us r = (fst r, map_option (\<lambda>(args, unknown). (args, us @ unknown)) (snd r))"

definition after_option :: "unit parsing \<Rightarrow> (string list \<times> string list) parsing \<Rightarrow> (string list \<times> string list) parsing" where
  "after_option e r = (case snd e of None \<Rightarrow> (fst e, None) | Some _ \<Rightarrow> (fst e @ fst r, snd r))"

text \<open>
  \<open>parseOptions\<close>: the options the command knows are consumed (with their value, when they
  take one and one follows), arguments that look like options but are unknown are
  collected together with the word that follows them, the rest are the operands.
\<close>

fun parseOptions ::
  "string option \<Rightarrow> cmd_option list \<Rightarrow> bool \<Rightarrow> string list \<Rightarrow> (string list \<times> string list) parsing" where
  "parseOptions ver opts literal [] = ([], Some ([], []))"
| "parseOptions ver opts literal (arg # rest) =
     (if literal then with_arg arg (parseOptions ver opts True rest)
      else if arg = ''--'' then parseOptions ver opts True rest
      else case optionFor opts arg of
             Some opt \<Rightarrow>
               if opt_required opt
               then (case rest of
                       [] \<Rightarrow> (optionMissingArgument opt, None)
                     | v # rest' \<Rightarrow>
                         after_option (emit_option ver opt) (parseOptions ver opts False rest'))
               else if opt_optional opt
               then (case rest of
                       [] \<Rightarrow> after_option (emit_option ver opt) (parseOptions ver opts False [])
                     | v # rest' \<Rightarrow>
                         if v \<noteq> [] \<and> hd v = CHR ''-'' \<and> v \<noteq> ''-''
                         then after_option (emit_option ver opt)
                                (parseOptions ver opts False (v # rest'))
                         else after_option (emit_option ver opt)
                                (parseOptions ver opts False rest'))
               else after_option (emit_option ver opt) (parseOptions ver opts False rest)
           | None \<Rightarrow>
               if length arg > 1 \<and> hd arg = CHR ''-''
               then (case rest of
                       [] \<Rightarrow> with_unknown [arg] (parseOptions ver opts False [])
                     | v # rest' \<Rightarrow>
                         if v \<noteq> [] \<and> hd v \<noteq> CHR ''-''
                         then with_unknown [arg, v] (parseOptions ver opts False rest')
                         else with_unknown [arg] (parseOptions ver opts False (v # rest')))
               else with_arg arg (parseOptions ver opts False rest))"

text \<open>\<open>outputHelpIfNecessary\<close>: is \<open>--help\<close> or \<open>-h\<close> among the unknown options?\<close>

definition help_requested :: "string list \<Rightarrow> bool" where
  "help_requested unknown = list_ex (\<lambda>u. u = ''--help'' \<or> u = ''-h'') unknown"

text \<open>The check of the expected arguments in the listener.\<close>

fun check_expected :: "expected_arg list \<Rightarrow> nat \<Rightarrow> nat \<Rightarrow> effect list option" where
  "check_expected [] i n = None"
| "check_expected (a # as) i n =
     (if arg_required a \<and> n \<le> i then Some (missingArgument (arg_name a))
      else if arg_variadic a \<and> as \<noteq> [] then Some (variadicArgNotLast (arg_name a))
      else check_expected as (Suc i) n)"

text \<open>
  The listener that \<open>action\<close> registers for a command: the options the program did not
  know are parsed as the command's own; a help flag among what is left prints the
  command's help and exits, any other unknown option is an error and exits with code 1,
  and so is a missing required argument; otherwise the action is called.
\<close>

definition listener :: "command \<Rightarrow> string list \<Rightarrow> string list \<Rightarrow> unit parsing" where
  "listener c args unknown =
     (case parseOptions None (cmd_options c) False unknown of
        (evs, None) \<Rightarrow> (evs, None)
      | (evs, Some (pargs, punknown)) \<Rightarrow>
          if help_requested punknown then (evs @ [OutputHelp (cmd_name c), ProcessExit 0], None)
          else if punknown \<noteq> [] then (evs @ unknownOption (hd punknown), None)
          else case check_expected (cmd_args c) 0 (length (pargs @ args)) of
                 Some err \<Rightarrow> (evs @ err, None)
               | None \<Rightarrow> (evs @ [RunAction (cmd_name c)], Some ()))"

text \<open>The listeners of the event \<open>command:<name>\<close>, in the order they were registered.\<close>

definition listeners_for :: "program \<Rightarrow> string \<Rightarrow> command list" where
  "listeners_for prog ev =
     concat (map (\<lambda>c. map (\<lambda>_. c) (filter (\<lambda>e. e = ev) (cmd_listens c))) (commands prog))"

fun run_listeners :: "command list \<Rightarrow> string list \<Rightarrow> string list \<Rightarrow> unit parsing" where
  "run_listeners [] args unknown = ([], Some ())"
| "run_listeners (c # cs) args unknown =
     (case snd (listener c args unknown) of
        None \<Rightarrow> (fst (listener c args unknown), None)
      | Some _ \<Rightarrow> (fst (listener c args unknown) @ fst (run_listeners cs args unknown),
                   snd (run_listeners cs args unknown)))"

text \<open>
  \<open>parseArgs\<close>: the first operand names the command; without a listener for it the event
  \<open>command:*\<close> is emitted instead. Without any operand, a help flag prints the program's
  help and exits, and any other unknown option is an error.
\<close>

definition parseArgs :: "program \<Rightarrow> string list \<Rightarrow> string list \<Rightarrow> unit parsing" where
  "parseArgs prog args unknown =
     (case args of
        [] \<Rightarrow>
          if help_requested unknown then ([OutputHelp (prog_name prog), ProcessExit 0], None)
          else if unknown \<noteq> [] then (unknownOption (hd unknown), None)
          else ([], Some ())
      | nm # rest \<Rightarrow>
          if listeners_for prog nm \<noteq> [] then run_listeners (listeners_for prog nm) rest unknown
          else run_listeners (listeners_for prog ''*'') (nm # rest) [])"

text \<open>
  The operands left when \<open>parseArgs\<close> is done: the name of a command that had a listener
  was shifted off.
\<close>

definition operands_left :: "program \<Rightarrow> string list \<Rightarrow> string list" where
  "operands_left prog args =
     (case args of
        [] \<Rightarrow> []
      | nm # rest \<Rightarrow> if listeners_for prog nm \<noteq> [] then rest else nm # rest)"

text \<open>
  \<open>program.parse(process.argv)\<close>. At its end, when the first operand left is the alias of a
  command, the library starts the executable sub-command of that name.
\<close>

definition parse :: "program \<Rightarrow> string list \<Rightarrow> unit parsing" where
  "parse prog argv =
     (case parseOptions (Some (prog_version prog)) (prog_options prog) False
             (normalize_argv (prog_options prog) None (drop 2 argv)) of
        (evs, None) \<Rightarrow> (evs, None)
      | (evs, Some (args, unknown)) \<Rightarrow>
          (case snd (parseArgs prog args unknown) of
             None \<Rightarrow> (evs @ fst (parseArgs prog args unknown), None)
           | Some _ \<Rightarrow>
               (evs @ fst (parseArgs prog args unknown) @
                (case operands_left prog args of
                   [] \<Rightarrow> []
                 | nm # _ \<Rightarrow>
                     (case find (\<lambda>c. nm \<noteq> [] \<and> cmd_alias c = Some nm) (commands prog) of
                        None \<Rightarrow> []
                      | Some c \<Rightarrow> [ExecuteSubCommand (cmd_name c)])),
                Some ())))"

section \<open>Registration and dispatch at the entry point\<close>

text \<open>
  What \<open>require\<close> gives for a module of the commands directory: a function, an object
  whose \<open>default\<close> slot holds a function or not, or \<open>null\<close> or \<open>undefined\<close>. A registration
  function adds commands to the program, or throws.
\<close>

type_synonym registration = "program \<Rightarrow> js_error + program"

datatype module_exports =
    ExportsFunction registration
  | ExportsObject "registration option"
  | ExportsNull
  | ExportsUndefined

text \<open>The error of reading a property of \<open>null\<close> or \<open>undefined\<close>.\<close>

definition TypeError :: "string \<Rightarrow> js_error" where
  "TypeError msg =
     \<lparr>isCommandError = False, isApiError = False, isXDLError = False,
      message = msg, stack = ''TypeError: '' @ msg\<rparr>"

definition cannot_read_property :: "string \<Rightarrow> string \<Rightarrow> js_error" where
  "cannot_read_property prop val =
     TypeError (''Cannot read property '' @ CHR 0x27 # prop @ CHR 0x27 # '' of '' @ val)"

definition not_properly_formatted :: "string \<Rightarrow> string" where
  "not_properly_formatted file =
     CHR 0x27 # file @ ''.js'' @ CHR 0x27 # '' is not a properly formatted command.''"

text \<open>
  The body of the \<open>forEach\<close> over \<open>commands/*.js\<close>. \<open>typeof\<close> of \<open>null\<close> is \<open>'object'\<close> and of
  \<open>undefined\<close> is \<open>'undefined'\<close>, so for both the second test reads \<open>commandModule.default\<close>,
  which throws.
\<close>

definition register_module :: "string \<Rightarrow> module_exports \<Rightarrow> program \<Rightarrow> program run" where
  "register_module file commandModule prog =
     (case commandModule of
        ExportsFunction f \<Rightarrow> ([], f prog)
      | ExportsObject (Some f) \<Rightarrow> ([], f prog)
      | ExportsObject None \<Rightarrow>
          seq (emit (LogError (not_properly_formatted file))) (\<lambda>_. done_with prog)
      | ExportsNull \<Rightarrow> throw (cannot_read_property ''default'' ''null'')
      | ExportsUndefined \<Rightarrow> throw (cannot_read_property ''default'' ''undefined''))"

fun registerCommands :: "(string \<times> module_exports) list \<Rightarrow> program \<Rightarrow> program run" where
  "registerCommands [] prog = done_with prog"
| "registerCommands ((file, commandModule) # files) prog =
     seq (register_module file commandModule prog) (registerCommands files)"

text \<open>The body of the \<open>forEach\<close> over \<open>debug_commands/*.js\<close>: the module is called as it is.\<close>

definition register_debug_module :: "string \<Rightarrow> module_exports \<Rightarrow> program \<Rightarrow> program run" where
  "register_debug_module file commandModule prog =
     (case commandModule of
        ExportsFunction f \<Rightarrow> ([], f prog)
      | _ \<Rightarrow> throw (TypeError ''require(...) is not a function''))"

fun registerDebugCommands :: "(string \<times> module_exports) list \<Rightarrow> program \<Rightarrow> program run" where
  "registerDebugCommands [] prog = done_with prog"
| "registerDebugCommands ((file, commandModule) # files) prog =
     seq (register_debug_module file commandModule prog) (registerDebugCommands files)"


text \<open>The names and aliases collected by the loop over \<open>program.commands\<close>.\<close>

definition names_of :: "command \<Rightarrow> string list" where
  "names_of c =
     cmd_name c # (case cmd_alias c of None \<Rightarrow> [] | Some a \<Rightarrow> if a \<noteq> [] then [a] else [])"

definition command_names :: "program \<Rightarrow> string list" where
  "command_names prog = concat (map names_of (commands prog))"

definition not_a_command :: "string \<Rightarrow> string" where
  "not_a_command subCommand =
     CHR 0x22 # subCommand @ CHR 0x22 # '' is not an exp command. See '' @
     CHR 0x22 # ''exp --help'' @ CHR 0x22 # '' for the full list of commands.''"

text \<open>
  The statements after \<open>program.parse\<close>: the message for an unknown sub-command, or the
  help (which prints and exits with code 0) when there is no sub-command.
\<close>

definition report :: "program \<Rightarrow> string list \<Rightarrow> unit run" where
  "report prog argv =
     (if length argv > 2 \<and> argv ! 2 \<noteq> []
      then when_do (argv ! 2 \<notin> set (command_names prog))
             (emit (ConsoleLog (not_a_command (argv ! 2))))
      else seq (emit (OutputHelp (prog_name prog))) (\<lambda>_. emit (ProcessExit 0)))"

text \<open>\<open>program.parse(process.argv)\<close> and, unless it ended the process, what follows it.\<close>

definition dispatch :: "program \<Rightarrow> string list \<Rightarrow> unit run" where
  "dispatch prog argv =
     (case snd (parse prog argv) of
        None \<Rightarrow> (fst (parse prog argv), Inr ())
      | Some _ \<Rightarrow> seq (fst (parse prog argv), Inr ()) (\<lambda>_. report prog argv))"

text \<open>The program before any command is registered.\<close>

definition program0 :: "string \<Rightarrow> program" where
  "program0 version =
     \<lparr>prog_name = ''exp'', prog_version = version,
      prog_options =
        [Option ''-V, --version'' ''output the version number'',
         Option ''-o, --output [format]'' ''Output format. pretty (default), raw''],
      commands = []\<rparr>"

text \<open>\<open>catch (e) { console.error(e); throw e; }\<close>\<close>

definition log_and_rethrow :: "'a run \<Rightarrow> 'a run" where
  "log_and_rethrow m =
     (case snd m of
        Inl e \<Rightarrow> (fst m @ [ConsoleError (message e)], Inl e)
      | Inr x \<Rightarrow> m)"

text \<open>
  \<open>runAsync\<close> from the registration loop on. The set-up before it (analytics keys, the
  logger streams, the server address) writes nothing that registration or dispatch read.
\<close>

definition runAsync ::
  "bool \<Rightarrow> (string \<times> module_exports) list \<Rightarrow> (string \<times> module_exports) list \<Rightarrow> string
     \<Rightarrow> string list \<Rightarrow> unit run" where
  "runAsync debug command_modules debug_modules version argv =
     log_and_rethrow
       (seq (registerCommands command_modules (program0 version)) (\<lambda>prog.
        seq (if debug then registerDebugCommands debug_modules prog else done_with prog) (\<lambda>prog.
        dispatch prog argv)))"


definition publish_module :: "string \<times> module_exports" where
  "publish_module =
     (''commands/publish.js'', ExportsObject (Some (\<lambda>prog. Inr (publish_default prog))))"


section \<open>Example inputs\<close>

text \<open>
  A world in which every collaborator answers normally, the options of a bare command
  line, and errors of the tagged kinds.
\<close>

definition example_world :: world where
  "example_world =
     \<lparr>EXPO_DEBUG = False, cwd = ''/home/u'',
      checkForExpUpdateAsync =
        Inr \<lparr>state = ''up-to-date'', current = ''1.0.0'', latest = ''1.0.0''\<rparr>,
      flush = Inr (),
      loginOrRegisterIfLoggedOut = Inr (),
      ensureLoggedInAsync = Inr (),
      currentStatus = (\<lambda>_. Inr ''exited''),
      validateLowLatencyAsync = (\<lambda>_. Inr NO_ISSUES),
      startAsync = (\<lambda>_. Inr ()),
      getRecipient = (\<lambda>_. Inr None),
      publishAsync = (\<lambda>_. Inr \<lparr>url = ''exp://exp.host/@u/app''\<rparr>),
      sendUrlAsync = (\<lambda>_ _. Inr ()),
      stopAsync = (\<lambda>_. Inr ())\<rparr>"

definition example_options :: options where
  "example_options =
     \<lparr>output_opt = None, offline = False, nonInteractive = False, quiet = False, sendTo = None\<rparr>"

definition api_error :: "string \<Rightarrow> js_error" where
  "api_error msg =
     \<lparr>isCommandError = False, isApiError = True, isXDLError = False,
      message = msg, stack = ''ApiError: '' @ msg\<rparr>"

section \<open>The steps of the project-directory wrapper\<close>

text \<open>
  The steps the wrapper takes before it delegates, and the step an effect belongs to. The
  update check and plain terminal output belong to none of them.
\<close>

datatype step = LoginFlow | SessionAssertion | DirectoryResolution | LogAttachment | ProjectValidation

fun step_of :: "effect \<Rightarrow> step option" where
  "step_of LoginOrRegisterIfLoggedOut = Some LoginFlow"
| "step_of EnsureLoggedIn = Some SessionAssertion"
| "step_of ProcessCwd = Some DirectoryResolution"
| "step_of (NewPackagerLogsStream _) = Some LogAttachment"
| "step_of (AttachLoggerStream _) = Some LogAttachment"
| "step_of (CurrentStatus _) = Some ProjectValidation"
| "step_of (ValidateLowLatency _) = Some ProjectValidation"
| "step_of _ = None"

text \<open>The steps of a run in the order they were taken, each named once per stretch.\<close>

definition steps :: "effect list \<Rightarrow> step list" where
  "steps evs = remdups_adj (List.map_filter step_of evs)"

text \<open>Were the steps taken in the listed order (steps may be absent, none may come early)?\<close>

fun in_sequence :: "'a list \<Rightarrow> 'a list \<Rightarrow> bool" where
  "in_sequence [] listed = True"
| "in_sequence (x # xs) [] = False"
| "in_sequence (x # xs) (y # ys) =
     (if x = y then in_sequence xs ys else in_sequence (x # xs) ys)"

section \<open>Calls to the project server\<close>

text \<open>The calls of a run that start, publish through or stop the project's server.\<close>

fun is_server_call :: "effect \<Rightarrow> bool" where
  "is_server_call (StartAsync _ _) = True"
| "is_server_call (PublishAsync _) = True"
| "is_server_call (StopAsync _) = True"
| "is_server_call _ = False"

definition server_calls :: "effect list \<Rightarrow> effect list" where
  "server_calls evs = filter is_server_call evs"

section \<open>Properties\<close>

subsection \<open>The update checker\<close>

lemma sublist_mid: "sublist xs (ps @ xs @ ss)"
  by (auto simp: sublist_def)

text \<open>
  C4. The update checker's mapping from the collaborator's state is a total function of
  the answer: \<open>up-to-date\<close> and \<open>ahead-of-published\<close> print nothing,
  \<open>out-of-date\<close> prints one advisory in which both the current and the latest version
  occur, every other state prints the generic warning, and for every state the mapping
  returns normally (it never throws).
\<close>

theorem update_switch_total:
  "(state u = ''up-to-date'' \<longrightarrow> update_switch u = ([], Inr ())) \<and>
   (state u = ''out-of-date'' \<longrightarrow>
      update_switch u = ([CrayonGreenError (update_message u)], Inr ()) \<and>
      sublist (current u) (update_message u) \<and> sublist (latest u) (update_message u)) \<and>
   (state u = ''ahead-of-published'' \<longrightarrow> update_switch u = ([], Inr ())) \<and>
   (state u \<notin> {''up-to-date'', ''out-of-date'', ''ahead-of-published''} \<longrightarrow>
      update_switch u = ([LogError ''Confused about what version of exp you have?''], Inr ())) \<and>
   snd (update_switch u) = Inr () \<and>
   checkForUpdateAsync (Inr u) = (CheckForExpUpdate # fst (update_switch u), Inr ())"
proof -
  have cur: "sublist (current u) (update_message u)"
    unfolding update_message_def
    using sublist_mid [of "current u"
        "''There is a new version of exp available ('' @ latest u @ '').'' @ [CHR 0x0A] @
         ''You are currently using exp ''"
        "[CHR 0x0A] @ ''Run `npm install -g exp` to get the latest version''"]
    by simp
  have lat: "sublist (latest u) (update_message u)"
    unfolding update_message_def
    using sublist_mid [of "latest u" "''There is a new version of exp available (''"
        "'').'' @ [CHR 0x0A] @ ''You are currently using exp '' @ current u @ [CHR 0x0A] @
         ''Run `npm install -g exp` to get the latest version''"]
    by simp
  have ret: "snd (update_switch u) = Inr ()"
    by (simp add: update_switch_def done_with_def emit_def)
  have chk: "checkForUpdateAsync (Inr u) = (CheckForExpUpdate # fst (update_switch u), Inr ())"
    using ret by (simp add: checkForUpdateAsync_def seq_def call_def)
  show ?thesis
    using cur lat ret chk by (simp add: update_switch_def done_with_def emit_def)
qed

theorem update_switch_total_witness:
  "update_switch \<lparr>state = ''up-to-date'', current = ''2.0.0'', latest = ''2.0.0''\<rparr> = ([], Inr ()) \<and>
   fst (update_switch \<lparr>state = ''out-of-date'', current = ''1.0.0'', latest = ''2.0.0''\<rparr>) =
     [CrayonGreenError (''There is a new version of exp available (2.0.0).'' @ [CHR 0x0A] @
        ''You are currently using exp 1.0.0'' @ [CHR 0x0A] @
        ''Run `npm install -g exp` to get the latest version'')] \<and>
   update_switch \<lparr>state = ''ahead-of-published'', current = ''3.0.0'', latest = ''2.0.0''\<rparr> = ([], Inr ()) \<and>
   update_switch \<lparr>state = ''unknown'', current = ''1.0.0'', latest = ''2.0.0''\<rparr> =
     ([LogError ''Confused about what version of exp you have?''], Inr ())"
  using update_switch_total [of "\<lparr>state = ''up-to-date'', current = ''2.0.0'', latest = ''2.0.0''\<rparr>"]
    update_switch_total [of "\<lparr>state = ''out-of-date'', current = ''1.0.0'', latest = ''2.0.0''\<rparr>"]
    update_switch_total [of "\<lparr>state = ''ahead-of-published'', current = ''3.0.0'', latest = ''2.0.0''\<rparr>"]
    update_switch_total [of "\<lparr>state = ''unknown'', current = ''1.0.0'', latest = ''2.0.0''\<rparr>"]
  by (simp add: update_message_def)

subsection \<open>The error boundary of the action wrapper\<close>

lemma crayon_red_differs: "crayon_red s \<noteq> s"
proof
  assume "crayon_red s = s"
  then have "length (crayon_red s) = length s" by simp
  then show False by (simp add: crayon_red_def ansi_def)
qed

lemma fst_seq: "fst (seq m k) = fst m @ (case snd m of Inl e \<Rightarrow> [] | Inr x \<Rightarrow> fst (k x))"
  by (simp add: seq_def split: sum.splits)

lemma snd_seq: "snd (seq m k) = (case snd m of Inl e \<Rightarrow> Inl e | Inr x \<Rightarrow> snd (k x))"
  by (simp add: seq_def split: sum.splits)

lemma guarded_body_throw:
  assumes "snd (asyncFn p opts) = Inl err"
  shows "guarded_body w asyncFn p opts =
           ((if output_opt opts = Some ''raw'' then [SetLogConfigRaw] else []) @
            (if offline opts then [SetConfigOffline] else []) @ fst (asyncFn p opts), Inl err)"
  using assms
  by (simp add: guarded_body_def seq_def when_do_def emit_def done_with_def)

lemma guarded_body_return:
  assumes "snd (asyncFn p opts) = Inr x"
  shows "guarded_body w asyncFn p opts =
           ((if output_opt opts = Some ''raw'' then [SetLogConfigRaw] else []) @
            (if offline opts then [SetConfigOffline] else []) @ fst (asyncFn p opts) @
            [AnalyticsFlush], flush w)"
  using assms
  by (simp add: guarded_body_def seq_def when_do_def emit_def done_with_def call_def)

lemma error_boundary_tagged:
  assumes "isCommandError err \<or> isApiError err \<or> isXDLError err"
  shows "error_boundary debug err =
           [LogError (if isApiError err \<and> \<not> isCommandError err then crayon_red (message err)
                      else message err), ProcessExit 1]"
  using assms by (auto simp: error_boundary_def)

text \<open>
  C2. When the handler throws an error that carries one of the three tags (command error,
  remote-API error, library error), the wrapper prints exactly one error line after what
  the handler itself did: the plain message for a command or library error, the message
  in red for a remote-API error. It prints no stack trace, whatever the debug flag of the
  environment is, and the process exits with code 1.
\<close>

theorem tagged_failure_one_line_exit_1:
  assumes tagged: "isCommandError err \<or> isApiError err \<or> isXDLError err"
    and thrown: "snd (asyncFn p opts) = Inl err"
  shows "asyncAction w asyncFn skipUpdateCheck p opts =
           ((if skipUpdateCheck then []
             else fst (checkForUpdateAsync (checkForExpUpdateAsync w))) @
            (if output_opt opts = Some ''raw'' then [SetLogConfigRaw] else []) @
            (if offline opts then [SetConfigOffline] else []) @
            fst (asyncFn p opts) @
            [LogError (if isApiError err \<and> \<not> isCommandError err then crayon_red (message err)
                       else message err),
             ProcessExit 1],
            Exited 1) \<and>
         (\<forall>debug. error_boundary debug err =
            [LogError (if isApiError err \<and> \<not> isCommandError err then crayon_red (message err)
                       else message err),
             ProcessExit 1]) \<and>
         crayon_red (message err) \<noteq> message err"
proof -
  have body: "guarded_body w asyncFn p opts =
           ((if output_opt opts = Some ''raw'' then [SetLogConfigRaw] else []) @
            (if offline opts then [SetConfigOffline] else []) @ fst (asyncFn p opts), Inl err)"
    using thrown by (rule guarded_body_throw)
  have line: "\<And>debug. error_boundary debug err =
           [LogError (if isApiError err \<and> \<not> isCommandError err then crayon_red (message err)
                      else message err), ProcessExit 1]"
    using tagged by (rule error_boundary_tagged)
  have run: "asyncAction w asyncFn skipUpdateCheck p opts =
           ((if skipUpdateCheck then []
             else fst (checkForUpdateAsync (checkForExpUpdateAsync w))) @
            (if output_opt opts = Some ''raw'' then [SetLogConfigRaw] else []) @
            (if offline opts then [SetConfigOffline] else []) @
            fst (asyncFn p opts) @ error_boundary (EXPO_DEBUG w) err, Exited 1)"
    unfolding asyncAction_def body
    by (simp add: when_do_def try_swallow_def done_with_def)
  show ?thesis
    unfolding run line using crayon_red_differs by simp
qed

theorem tagged_failure_one_line_exit_1_witness:
  "asyncAction (example_world\<lparr>EXPO_DEBUG := True\<rparr>)
       (\<lambda>_ _. ([Log ''Logging in''], Inl (api_error ''Bad password'')) :: unit run) False () example_options =
     ([CheckForExpUpdate, Log ''Logging in'', LogError (crayon_red ''Bad password''), ProcessExit 1],
      Exited 1)"
  using tagged_failure_one_line_exit_1 [of "api_error ''Bad password''"
      "\<lambda>_ _. ([Log ''Logging in''], Inl (api_error ''Bad password'')) :: unit run" "()" example_options
      "example_world\<lparr>EXPO_DEBUG := True\<rparr>" False]
  by (simp add: api_error_def example_world_def example_options_def checkForUpdateAsync_def
      seq_def call_def update_switch_def done_with_def)

subsection \<open>Update check and telemetry flush\<close>

lemma when_do_False: "when_do False m = done_with ()"
  by (simp add: when_do_def)

lemma asyncAction_update_check:
  "asyncAction w asyncFn False p opts =
     (fst (checkForUpdateAsync (checkForExpUpdateAsync w)) @ fst (asyncAction w asyncFn True p opts),
      snd (asyncAction w asyncFn True p opts))"
  by (simp add: asyncAction_def Let_def when_do_def try_swallow_def done_with_def
      split: sum.splits)

lemma asyncAction_ignores_update_answer:
  "asyncAction (w\<lparr>checkForExpUpdateAsync := a\<rparr>) asyncFn True p opts =
   asyncAction w asyncFn True p opts"
  by (simp add: asyncAction_def guarded_body_def Let_def when_do_False cong: sum.case_cong)

text \<open>
  C5, as amended. A failure of the update check is swallowed: the invocation goes on exactly
  as it does without the check. A throw of the telemetry flush after a successful handler
  is not swallowed: it reaches the error boundary, which prints it and exits with code 1.
  When the flush returns, the invocation completes.
\<close>

theorem update_failure_swallowed_flush_failure_reported:
  "asyncAction (w\<lparr>checkForExpUpdateAsync := Inl e\<rparr>) asyncFn False p opts =
     (CheckForExpUpdate # fst (asyncAction w asyncFn True p opts),
      snd (asyncAction w asyncFn True p opts)) \<and>
   (snd (asyncFn p opts) = Inr x \<and> flush w = Inl e' \<longrightarrow>
      asyncAction w asyncFn True p opts =
        ((if output_opt opts = Some ''raw'' then [SetLogConfigRaw] else []) @
         (if offline opts then [SetConfigOffline] else []) @
         fst (asyncFn p opts) @ [AnalyticsFlush] @ error_boundary (EXPO_DEBUG w) e',
         Exited 1)) \<and>
   (snd (asyncFn p opts) = Inr x \<and> flush w = Inr () \<longrightarrow>
      asyncAction w asyncFn True p opts =
        ((if output_opt opts = Some ''raw'' then [SetLogConfigRaw] else []) @
         (if offline opts then [SetConfigOffline] else []) @
         fst (asyncFn p opts) @ [AnalyticsFlush],
         Completed))"
proof -
  have upd: "asyncAction (w\<lparr>checkForExpUpdateAsync := Inl e\<rparr>) asyncFn False p opts =
     (CheckForExpUpdate # fst (asyncAction w asyncFn True p opts),
      snd (asyncAction w asyncFn True p opts))"
    unfolding asyncAction_update_check [of "w\<lparr>checkForExpUpdateAsync := Inl e\<rparr>"]
      asyncAction_ignores_update_answer
    by (simp add: checkForUpdateAsync_def seq_def call_def)
  have fl: "asyncAction w asyncFn True p opts =
        ((if output_opt opts = Some ''raw'' then [SetLogConfigRaw] else []) @
         (if offline opts then [SetConfigOffline] else []) @
         fst (asyncFn p opts) @ [AnalyticsFlush] @ error_boundary (EXPO_DEBUG w) e',
         Exited 1)" if "snd (asyncFn p opts) = Inr x" "flush w = Inl e'"
    using that guarded_body_return [of asyncFn p opts x w]
    by (simp add: asyncAction_def when_do_def done_with_def)
  have ok: "asyncAction w asyncFn True p opts =
        ((if output_opt opts = Some ''raw'' then [SetLogConfigRaw] else []) @
         (if offline opts then [SetConfigOffline] else []) @
         fst (asyncFn p opts) @ [AnalyticsFlush],
         Completed)" if "snd (asyncFn p opts) = Inr x" "flush w = Inr ()"
    using that guarded_body_return [of asyncFn p opts x w]
    by (simp add: asyncAction_def when_do_def done_with_def)
  show ?thesis using upd fl ok by blast
qed

text \<open>
  C5, as stated, fails: with a handler that returns normally and a telemetry flush that
  throws, the error path prints and the process exits with code 1.
\<close>

theorem flush_failure_counterexample:
  "asyncAction (example_world\<lparr>flush := Inl (new_Error ''flush failed'')\<rparr>)
       (\<lambda>_ _. ([], Inr ())) True () example_options =
     ([AnalyticsFlush, LogError ''flush failed'',
       LogError (crayon_grey ''Set EXPO_DEBUG=true in your env to view the stack trace.''),
       ProcessExit 1],
      Exited 1)"
  by (simp add: asyncAction_def guarded_body_def seq_def when_do_def done_with_def call_def
      example_world_def example_options_def new_Error_def error_boundary_def)

theorem update_failure_swallowed_flush_failure_reported_witness:
  "asyncAction (example_world\<lparr>checkForExpUpdateAsync := Inl (new_Error ''offline'')\<rparr>)
       (\<lambda>_ _. ([Log ''ok''], Inr ())) False () example_options =
     ([CheckForExpUpdate, Log ''ok'', AnalyticsFlush], Completed) \<and>
   asyncAction (example_world\<lparr>flush := Inl (api_error ''rejected'')\<rparr>)
       (\<lambda>_ _. ([Log ''ok''], Inr ())) True () example_options =
     ([Log ''ok'', AnalyticsFlush, LogError (crayon_red ''rejected''), ProcessExit 1], Exited 1)"
  using update_failure_swallowed_flush_failure_reported
      [where w = example_world and e = "new_Error ''offline''"
         and asyncFn = "\<lambda>_ _. ([Log ''ok''], Inr ())" and p = "()" and opts = example_options
         and x = "()" and e' = "api_error ''rejected''"]
    update_failure_swallowed_flush_failure_reported
      [where w = "example_world\<lparr>flush := Inl (api_error ''rejected'')\<rparr>"
         and e = "new_Error ''offline''"
         and asyncFn = "\<lambda>_ _. ([Log ''ok''], Inr ())" and p = "()" and opts = example_options
         and x = "()" and e' = "api_error ''rejected''"]
  by (simp add: example_world_def example_options_def api_error_def error_boundary_def)

subsection \<open>The steps of the project-directory wrapper\<close>

lemma map_filter_append: "List.map_filter f (xs @ ys) = List.map_filter f xs @ List.map_filter f ys"
  by (simp add: List.map_filter_def)

lemma update_check_steps:
  "List.map_filter step_of (fst (try_swallow (checkForUpdateAsync a))) = []"
  by (cases a)
     (simp_all add: try_swallow_def checkForUpdateAsync_def fst_seq call_def update_switch_def
       done_with_def emit_def List.map_filter_def)

lemma update_check_returns: "snd (try_swallow m) = Inr ()"
  by (simp add: try_swallow_def)


lemma resolve_projectDir_steps:
  "List.map_filter step_of (fst (resolve_projectDir w pd)) = [DirectoryResolution] \<and>
   snd (resolve_projectDir w pd) =
     Inr (case pd of None \<Rightarrow> cwd w | Some d \<Rightarrow> if d = [] then cwd w else path_resolve (cwd w) d)"
  by (simp add: resolve_projectDir_def seq_def emit_def done_with_def List.map_filter_def)

lemma attach_logs_steps:
  "List.map_filter step_of (fst (attach_logs dir)) = [LogAttachment, LogAttachment] \<and>
   snd (attach_logs dir) = Inr ()"
  by (simp add: attach_logs_def seq_def emit_def List.map_filter_def)

lemma auth_steps_run:
  "auth_steps w sa opts =
     (if sa then ([], Inr ())
      else if nonInteractive opts \<or> offline opts then ([EnsureLoggedIn], ensureLoggedInAsync w)
      else case loginOrRegisterIfLoggedOut w of
             Inl e \<Rightarrow> ([LoginOrRegisterIfLoggedOut], Inl e)
           | Inr _ \<Rightarrow> ([LoginOrRegisterIfLoggedOut, EnsureLoggedIn], ensureLoggedInAsync w))"
  by (auto simp: auth_steps_def seq_def when_do_def call_def done_with_def split: sum.splits)






lemma projectDir_steps_auth:
  "List.map_filter step_of (fst (projectDir_steps w sv sa pd opts)) =
      List.map_filter step_of (fst (auth_steps w sa opts)) @
      (case snd (auth_steps w sa opts) of
         Inl e \<Rightarrow> []
       | Inr _ \<Rightarrow> [DirectoryResolution, LogAttachment, LogAttachment] @
                   List.map_filter step_of
                     (fst (validate_project w sv
                        (case pd of None \<Rightarrow> cwd w
                         | Some d \<Rightarrow> if d = [] then cwd w else path_resolve (cwd w) d))))"
  using resolve_projectDir_steps [of w pd]
    attach_logs_steps [of "case pd of None \<Rightarrow> cwd w
                         | Some d \<Rightarrow> if d = [] then cwd w else path_resolve (cwd w) d"]
  by (simp add: projectDir_steps_def fst_seq snd_seq map_filter_append update_check_steps
      update_check_returns done_with_def split: sum.splits)


lemma asyncActionProjectDir_failure:
  assumes "snd (projectDir_steps w sv sa pd opts) = Inl e"
  shows "asyncActionProjectDir w asyncFn sv sa pd opts =
           ((if output_opt opts = Some ''raw'' then [SetLogConfigRaw] else []) @
            (if offline opts then [SetConfigOffline] else []) @
            fst (projectDir_steps w sv sa pd opts) @ error_boundary (EXPO_DEBUG w) e,
            Exited 1)"
proof -
  have "snd (seq (projectDir_steps w sv sa pd opts) (\<lambda>dir. asyncFn dir opts)) = Inl e"
    using assms by (simp add: snd_seq)
  then have "guarded_body w
      (\<lambda>projectDir opts. seq (projectDir_steps w sv sa projectDir opts) (\<lambda>dir. asyncFn dir opts))
      pd opts =
      ((if output_opt opts = Some ''raw'' then [SetLogConfigRaw] else []) @
       (if offline opts then [SetConfigOffline] else []) @
       fst (seq (projectDir_steps w sv sa pd opts) (\<lambda>dir. asyncFn dir opts)), Inl e)"
    by (rule guarded_body_throw)
  then show ?thesis
    using assms
    by (simp add: asyncActionProjectDir_def asyncAction_def when_do_False done_with_def fst_seq)
qed

lemma validate_project_skipped: "validate_project w True dir = ([], Inr ())"
  by (simp add: validate_project_def seq_def done_with_def when_do_def)

lemma validate_project_run:
  "List.map_filter step_of (fst (validate_project w False dir)) \<in>
     {[ProjectValidation], [ProjectValidation, ProjectValidation]}"
  by (cases "currentStatus w dir"; cases "validateLowLatencyAsync w dir")
     (auto simp: validate_project_def seq_def when_do_def call_def done_with_def emit_def
       throw_def map_filter_simps)

lemma steps_of_update_check:
  "fst (checkForUpdateAsync a) =
     CheckForExpUpdate # (case a of Inl e \<Rightarrow> [] | Inr u \<Rightarrow> fst (update_switch u))"
  by (cases a) (simp_all add: checkForUpdateAsync_def seq_def call_def)

lemma projectDir_steps_trace:
  "fst (projectDir_steps w sv sa pd opts) =
     fst (checkForUpdateAsync (checkForExpUpdateAsync w)) @
     fst (seq (auth_steps w sa opts) (\<lambda>_.
          seq (resolve_projectDir w pd) (\<lambda>dir.
          seq (attach_logs dir) (\<lambda>_.
          seq (validate_project w sv dir) (\<lambda>_. done_with dir)))))"
  by (simp add: projectDir_steps_def fst_seq update_check_returns try_swallow_def)

lemma no_update_check_after:
  "CheckForExpUpdate \<notin> set (fst (seq (auth_steps w sa opts) (\<lambda>_.
          seq (resolve_projectDir w pd) (\<lambda>dir.
          seq (attach_logs dir) (\<lambda>_.
          seq (validate_project w sv dir) (\<lambda>_. done_with dir))))))"
  by (auto simp: fst_seq snd_seq auth_steps_run resolve_projectDir_def attach_logs_def
      validate_project_def emit_def call_def done_with_def when_do_def throw_def
      split: sum.splits if_splits)

lemma projectDir_steps_result:
  "snd (projectDir_steps w sv sa pd opts) =
     (case snd (auth_steps w sa opts) of
        Inl e \<Rightarrow> Inl e
      | Inr _ \<Rightarrow>
          (case snd (validate_project w sv
                  (case pd of None \<Rightarrow> cwd w
                   | Some d \<Rightarrow> if d = [] then cwd w else path_resolve (cwd w) d)) of
             Inl e \<Rightarrow> Inl e
           | Inr _ \<Rightarrow> Inr (case pd of None \<Rightarrow> cwd w
                   | Some d \<Rightarrow> if d = [] then cwd w else path_resolve (cwd w) d)))"
  using resolve_projectDir_steps [of w pd]
    attach_logs_steps [of "case pd of None \<Rightarrow> cwd w
                         | Some d \<Rightarrow> if d = [] then cwd w else path_resolve (cwd w) d"]
  by (simp add: projectDir_steps_def snd_seq update_check_returns done_with_def
      split: sum.splits)

lemma steps_taken:
  "prefix (steps (fst (projectDir_steps w sv sa pd opts)))
     ((if \<not> sa \<and> \<not> nonInteractive opts \<and> \<not> offline opts then [LoginFlow] else []) @
      (if \<not> sa then [SessionAssertion] else []) @
      [DirectoryResolution, LogAttachment] @
      (if sv then [] else [ProjectValidation])) \<and>
   (case snd (projectDir_steps w sv sa pd opts) of
      Inl e \<Rightarrow> True
    | Inr dir \<Rightarrow>
        steps (fst (projectDir_steps w sv sa pd opts)) =
          (if \<not> sa \<and> \<not> nonInteractive opts \<and> \<not> offline opts then [LoginFlow] else []) @
          (if \<not> sa then [SessionAssertion] else []) @
          [DirectoryResolution, LogAttachment] @
          (if sv then [] else [ProjectValidation]))"
proof -
  let ?dir = "case pd of None \<Rightarrow> cwd w
              | Some d \<Rightarrow> if d = [] then cwd w else path_resolve (cwd w) d"
  have V: "sv \<Longrightarrow> List.map_filter step_of (fst (validate_project w sv ?dir)) = []"
    by (simp add: validate_project_skipped map_filter_simps)
  have V': "\<not> sv \<Longrightarrow> List.map_filter step_of (fst (validate_project w sv ?dir)) \<in>
     {[ProjectValidation], [ProjectValidation, ProjectValidation]}"
    using validate_project_run [of w ?dir] by simp
  show ?thesis
    unfolding steps_def projectDir_steps_auth projectDir_steps_result auth_steps_run
    using V V'
    by (cases sv; cases sa; cases "nonInteractive opts \<or> offline opts";
        cases "loginOrRegisterIfLoggedOut w"; cases "ensureLoggedInAsync w")
      (auto simp: map_filter_simps split: sum.splits)
qed

lemma asyncActionProjectDir_run:
  "asyncActionProjectDir w asyncFn sv sa pd opts =
     (case snd (projectDir_steps w sv sa pd opts) of
        Inl e \<Rightarrow>
          ((if output_opt opts = Some ''raw'' then [SetLogConfigRaw] else []) @
           (if offline opts then [SetConfigOffline] else []) @
           fst (projectDir_steps w sv sa pd opts) @ error_boundary (EXPO_DEBUG w) e,
           Exited 1)
      | Inr dir \<Rightarrow>
          (case snd (asyncFn dir opts) of
             Inl e \<Rightarrow>
               ((if output_opt opts = Some ''raw'' then [SetLogConfigRaw] else []) @
                (if offline opts then [SetConfigOffline] else []) @
                fst (projectDir_steps w sv sa pd opts) @ fst (asyncFn dir opts) @
                error_boundary (EXPO_DEBUG w) e,
                Exited 1)
           | Inr _ \<Rightarrow>
               (case flush w of
                  Inl e \<Rightarrow>
                    ((if output_opt opts = Some ''raw'' then [SetLogConfigRaw] else []) @
                     (if offline opts then [SetConfigOffline] else []) @
                     fst (projectDir_steps w sv sa pd opts) @ fst (asyncFn dir opts) @
                     [AnalyticsFlush] @ error_boundary (EXPO_DEBUG w) e,
                     Exited 1)
                | Inr _ \<Rightarrow>
                    ((if output_opt opts = Some ''raw'' then [SetLogConfigRaw] else []) @
                     (if offline opts then [SetConfigOffline] else []) @
                     fst (projectDir_steps w sv sa pd opts) @ fst (asyncFn dir opts) @
                     [AnalyticsFlush],
                     Completed))))"
proof (cases "snd (projectDir_steps w sv sa pd opts)")
  case (Inl e)
  then show ?thesis
    using asyncActionProjectDir_failure [of w sv sa pd opts e asyncFn] by simp
next
  case (Inr dir)
  let ?fn = "\<lambda>projectDir opts. seq (projectDir_steps w sv sa projectDir opts) (\<lambda>dir. asyncFn dir opts)"
  have f: "fst (?fn pd opts) = fst (projectDir_steps w sv sa pd opts) @ fst (asyncFn dir opts)"
    and r: "snd (?fn pd opts) = snd (asyncFn dir opts)"
    using Inr by (simp_all add: fst_seq snd_seq)
  show ?thesis
  proof (cases "snd (asyncFn dir opts)")
    case (Inl e)
    then have "snd (?fn pd opts) = Inl e" using r by simp
    from guarded_body_throw [of ?fn pd opts e w, OF this] show ?thesis
      using Inr Inl f
      by (simp add: asyncActionProjectDir_def asyncAction_def when_do_False done_with_def)
  next
    case inner: (Inr x)
    then have "snd (?fn pd opts) = Inr x" using r by simp
    from guarded_body_return [of ?fn pd opts x w, OF this] show ?thesis
      using Inr inner f
      by (cases "flush w")
        (simp_all add: asyncActionProjectDir_def asyncAction_def when_do_False done_with_def)
  qed
qed

subsection \<open>The order of the steps\<close>

text \<open>
  C3, as amended. Within one invocation of a command wrapped by \<open>asyncActionProjectDir\<close>
  the steps are taken in this order: first the best-effort update check, then the
  login-or-register flow, then the session assertion, then the resolution of the working
  directory, then the attachment of the log streams, then project validation. A run that
  ends early has taken a beginning of this sequence, a run that gets through has taken
  all of it (each step unless it is switched off). The handler is called last, only when
  every step returned, and with the resolved directory; what follows it is the telemetry
  flush or the error boundary.
\<close>

theorem projectDir_steps_order:
  "(\<exists>rest.
      fst (projectDir_steps w skipProjectValidation skipAuthCheck projectDir opts) =
        CheckForExpUpdate #
        (case checkForExpUpdateAsync w of Inl e \<Rightarrow> [] | Inr u \<Rightarrow> fst (update_switch u)) @ rest \<and>
      CheckForExpUpdate \<notin> set rest \<and>
      steps rest = steps (fst (projectDir_steps w skipProjectValidation skipAuthCheck projectDir opts))) \<and>
   prefix (steps (fst (projectDir_steps w skipProjectValidation skipAuthCheck projectDir opts)))
     ((if \<not> skipAuthCheck \<and> \<not> nonInteractive opts \<and> \<not> offline opts then [LoginFlow] else []) @
      (if \<not> skipAuthCheck then [SessionAssertion] else []) @
      [DirectoryResolution, LogAttachment] @
      (if skipProjectValidation then [] else [ProjectValidation])) \<and>
   (case snd (projectDir_steps w skipProjectValidation skipAuthCheck projectDir opts) of
      Inl e \<Rightarrow> True
    | Inr dir \<Rightarrow>
        dir = (case projectDir of
                 None \<Rightarrow> cwd w
               | Some d \<Rightarrow> if d = [] then cwd w else path_resolve (cwd w) d) \<and>
        steps (fst (projectDir_steps w skipProjectValidation skipAuthCheck projectDir opts)) =
          (if \<not> skipAuthCheck \<and> \<not> nonInteractive opts \<and> \<not> offline opts then [LoginFlow] else []) @
          (if \<not> skipAuthCheck then [SessionAssertion] else []) @
          [DirectoryResolution, LogAttachment] @
          (if skipProjectValidation then [] else [ProjectValidation])) \<and>
   asyncActionProjectDir w asyncFn skipProjectValidation skipAuthCheck projectDir opts =
     (case snd (projectDir_steps w skipProjectValidation skipAuthCheck projectDir opts) of
        Inl e \<Rightarrow>
          ((if output_opt opts = Some ''raw'' then [SetLogConfigRaw] else []) @
           (if offline opts then [SetConfigOffline] else []) @
           fst (projectDir_steps w skipProjectValidation skipAuthCheck projectDir opts) @
           error_boundary (EXPO_DEBUG w) e,
           Exited 1)
      | Inr _ \<Rightarrow>
          (case snd (asyncFn (case projectDir of
                                None \<Rightarrow> cwd w
                              | Some d \<Rightarrow> if d = [] then cwd w else path_resolve (cwd w) d)
                       opts) of
             Inl e \<Rightarrow>
               ((if output_opt opts = Some ''raw'' then [SetLogConfigRaw] else []) @
                (if offline opts then [SetConfigOffline] else []) @
                fst (projectDir_steps w skipProjectValidation skipAuthCheck projectDir opts) @
                fst (asyncFn (case projectDir of
                                None \<Rightarrow> cwd w
                              | Some d \<Rightarrow> if d = [] then cwd w else path_resolve (cwd w) d)
                       opts) @
                error_boundary (EXPO_DEBUG w) e,
                Exited 1)
           | Inr _ \<Rightarrow>
               (case flush w of
                  Inl e \<Rightarrow>
                    ((if output_opt opts = Some ''raw'' then [SetLogConfigRaw] else []) @
                     (if offline opts then [SetConfigOffline] else []) @
                     fst (projectDir_steps w skipProjectValidation skipAuthCheck projectDir opts) @
                     fst (asyncFn (case projectDir of
                                     None \<Rightarrow> cwd w
                                   | Some d \<Rightarrow> if d = [] then cwd w else path_resolve (cwd w) d)
                            opts) @
                     [AnalyticsFlush] @ error_boundary (EXPO_DEBUG w) e,
                     Exited 1)
                | Inr _ \<Rightarrow>
                    ((if output_opt opts = Some ''raw'' then [SetLogConfigRaw] else []) @
                     (if offline opts then [SetConfigOffline] else []) @
                     fst (projectDir_steps w skipProjectValidation skipAuthCheck projectDir opts) @
                     fst (asyncFn (case projectDir of
                                     None \<Rightarrow> cwd w
                                   | Some d \<Rightarrow> if d = [] then cwd w else path_resolve (cwd w) d)
                            opts) @
                     [AnalyticsFlush],
                     Completed))))"
proof -
  let ?T = "fst (projectDir_steps w skipProjectValidation skipAuthCheck projectDir opts)"
  let ?rest = "fst (seq (auth_steps w skipAuthCheck opts) (\<lambda>_.
          seq (resolve_projectDir w projectDir) (\<lambda>dir.
          seq (attach_logs dir) (\<lambda>_.
          seq (validate_project w skipProjectValidation dir) (\<lambda>_. done_with dir)))))"
  have T: "?T = fst (checkForUpdateAsync (checkForExpUpdateAsync w)) @ ?rest"
    by (rule projectDir_steps_trace)
  have "List.map_filter step_of (fst (checkForUpdateAsync (checkForExpUpdateAsync w))) = []"
    using update_check_steps [of "checkForExpUpdateAsync w"] by (simp add: try_swallow_def)
  then have "steps ?rest = steps ?T"
    unfolding T by (simp add: steps_def map_filter_append)
  then have first: "\<exists>rest. ?T = CheckForExpUpdate #
        (case checkForExpUpdateAsync w of Inl e \<Rightarrow> [] | Inr u \<Rightarrow> fst (update_switch u)) @ rest \<and>
      CheckForExpUpdate \<notin> set rest \<and> steps rest = steps ?T"
    using T no_update_check_after [of w skipAuthCheck opts projectDir skipProjectValidation]
    unfolding steps_of_update_check by (intro exI [of _ ?rest]) simp
  have dir: "case snd (projectDir_steps w skipProjectValidation skipAuthCheck projectDir opts) of
      Inl e \<Rightarrow> True
    | Inr dir \<Rightarrow>
        dir = (case projectDir of
                 None \<Rightarrow> cwd w
               | Some d \<Rightarrow> if d = [] then cwd w else path_resolve (cwd w) d)"
    unfolding projectDir_steps_result by (simp split: sum.splits)
  note taken = steps_taken [of w skipProjectValidation skipAuthCheck projectDir opts]
  note run = asyncActionProjectDir_run
    [of w asyncFn skipProjectValidation skipAuthCheck projectDir opts]
  show ?thesis
  proof (cases "snd (projectDir_steps w skipProjectValidation skipAuthCheck projectDir opts)")
    case (Inl e)
    show ?thesis
      apply (intro conjI)
         apply (rule first)
        apply (rule taken [THEN conjunct1])
       apply (simp add: Inl)
      apply (simp add: run Inl)
      done
  next
    case (Inr d)
    have d: "d = (case projectDir of
                 None \<Rightarrow> cwd w
               | Some d \<Rightarrow> if d = [] then cwd w else path_resolve (cwd w) d)"
      using dir by (simp add: Inr)
    have all: "steps ?T =
          (if \<not> skipAuthCheck \<and> \<not> nonInteractive opts \<and> \<not> offline opts then [LoginFlow] else []) @
          (if \<not> skipAuthCheck then [SessionAssertion] else []) @
          [DirectoryResolution, LogAttachment] @
          (if skipProjectValidation then [] else [ProjectValidation])"
      using taken [THEN conjunct2] by (simp add: Inr)
    show ?thesis
      apply (intro conjI)
         apply (rule first)
        apply (rule taken [THEN conjunct1])
       apply (simp only: Inr sum.case)
       apply (rule conjI [OF d all])
      apply (simp only: run Inr sum.case d [symmetric])
      done
  qed
qed

text \<open>
  C3, as stated, fails: in a run that takes every step, the working directory is resolved
  after the login flow and the session assertion, not before them.
\<close>

theorem listed_order_counterexample:
  "steps (fst (projectDir_steps example_world False False (Some ''app'') example_options)) =
     [LoginFlow, SessionAssertion, DirectoryResolution, LogAttachment, ProjectValidation] \<and>
   \<not> in_sequence
       (steps (fst (projectDir_steps example_world False False (Some ''app'') example_options)))
       [DirectoryResolution, LoginFlow, SessionAssertion, LogAttachment, ProjectValidation]"
proof -
  have "steps (fst (projectDir_steps example_world False False (Some ''app'') example_options)) =
     [LoginFlow, SessionAssertion, DirectoryResolution, LogAttachment, ProjectValidation]"
    by (simp add: steps_def projectDir_steps_def auth_steps_def resolve_projectDir_def
        attach_logs_def validate_project_def checkForUpdateAsync_def update_switch_def
        try_swallow_def seq_def when_do_def call_def emit_def done_with_def
        example_world_def example_options_def map_filter_simps)
  then show ?thesis by simp
qed

theorem projectDir_steps_order_witness:
  "asyncActionProjectDir example_world (\<lambda>dir opts. ([RunAction dir], Inr ())) False False
       (Some ''app'') example_options =
     ([CheckForExpUpdate, LoginOrRegisterIfLoggedOut, EnsureLoggedIn, ProcessCwd,
       NewPackagerLogsStream ''/home/u/app'', AttachLoggerStream ''/home/u/app'',
       CurrentStatus ''/home/u/app'', Log ''Making sure project is set up correctly...'',
       SpinnerStart, ValidateLowLatency ''/home/u/app'', SpinnerStop,
       Log ''Your project looks good!'', RunAction ''/home/u/app'', AnalyticsFlush],
      Completed)"
proof -
  have run: "projectDir_steps example_world False False (Some ''app'') example_options =
      ([CheckForExpUpdate, LoginOrRegisterIfLoggedOut, EnsureLoggedIn, ProcessCwd,
        NewPackagerLogsStream ''/home/u/app'', AttachLoggerStream ''/home/u/app'',
        CurrentStatus ''/home/u/app'', Log ''Making sure project is set up correctly...'',
        SpinnerStart, ValidateLowLatency ''/home/u/app'', SpinnerStop,
        Log ''Your project looks good!''],
       Inr ''/home/u/app'')"
    by (simp add: projectDir_steps_def auth_steps_def resolve_projectDir_def
        attach_logs_def validate_project_def checkForUpdateAsync_def update_switch_def
        try_swallow_def seq_def when_do_def call_def emit_def done_with_def
        example_world_def example_options_def path_resolve_def)
  have "path_resolve ''/home/u'' ''app'' = ''/home/u/app''"
    by (simp add: path_resolve_def)
  then show ?thesis
    using projectDir_steps_order [of example_world False False "Some ''app''" example_options
        "\<lambda>dir opts. ([RunAction dir], Inr ())"]
    unfolding run
    by (simp add: example_world_def example_options_def)
qed

subsection \<open>The login gate and the session assertion\<close>




subsection \<open>The publish action\<close>

text \<open>
  C10. On the success path the publish action leaves the server as it found it: when the
  status query answers \<open>running\<close>, the only server call is the publish; otherwise the
  action starts the server, publishes, and then stops the server of the same project
  directory. So \<open>stopAsync\<close> is called exactly when the action started the server.
\<close>

theorem publish_stops_what_it_started:
  assumes "snd (action w projectDir opts) = Inr result"
  shows "\<exists>status. currentStatus w projectDir = Inr status \<and>
           server_calls (fst (action w projectDir opts)) =
             (if status = ''running'' then [PublishAsync projectDir]
              else [StartAsync projectDir (\<not> quiet opts), PublishAsync projectDir,
                    StopAsync projectDir])"
proof (cases "currentStatus w projectDir")
  case (Inl e)
  with assms show ?thesis by (simp add: action_def seq_def call_def)
next
  case (Inr status)
  show ?thesis
  proof (cases "status = ''running''")
    case True
    with Inr assms show ?thesis
      apply (cases "getRecipient w (sendTo opts)"; cases "publishAsync w projectDir")
      apply (auto simp: action_def seq_def call_def done_with_def emit_def when_do_def
          server_calls_def split: option.splits sum.splits if_splits)
      done
  next
    case False
    with Inr assms show ?thesis
      apply (cases "startAsync w projectDir"; cases "getRecipient w (sendTo opts)";
          cases "publishAsync w projectDir"; cases "stopAsync w projectDir")
      apply (auto simp: action_def seq_def call_def done_with_def emit_def when_do_def
          server_calls_def split: option.splits sum.splits if_splits)
      done
  qed
qed

theorem publish_stops_what_it_started_witness:
  "server_calls (fst (action example_world ''/home/u/app'' example_options)) =
     [StartAsync ''/home/u/app'' True, PublishAsync ''/home/u/app'', StopAsync ''/home/u/app''] \<and>
   server_calls (fst (action (example_world\<lparr>currentStatus := (\<lambda>_. Inr ''running'')\<rparr>)
                        ''/home/u/app'' example_options)) =
     [PublishAsync ''/home/u/app'']"
proof -
  have started: "snd (action example_world ''/home/u/app'' example_options) =
      Inr \<lparr>url = ''exp://exp.host/@u/app''\<rparr>"
    by (simp add: action_def seq_def call_def done_with_def emit_def when_do_def
        example_world_def example_options_def)
  have running: "snd (action (example_world\<lparr>currentStatus := (\<lambda>_. Inr ''running'')\<rparr>)
                        ''/home/u/app'' example_options) =
      Inr \<lparr>url = ''exp://exp.host/@u/app''\<rparr>"
    by (simp add: action_def seq_def call_def done_with_def emit_def when_do_def
        example_world_def example_options_def)
  show ?thesis
    using publish_stops_what_it_started [OF started] publish_stops_what_it_started [OF running]
    by (simp add: example_world_def example_options_def)
qed

subsection \<open>The progress indicator\<close>







subsection \<open>Registration of the command modules\<close>

text \<open>
  C7 does not hold of the code for a module whose export is \<open>null\<close> (or \<open>undefined\<close>):
  the test \<open>typeof commandModule.default\<close> throws, so nothing is logged for the module, the
  registration loop is abandoned, the modules after it are not registered, and \<open>runAsync\<close>
  prints the error and throws it on. With an object without a \<open>default\<close> function in the
  same place, the error is logged and both other modules are registered.
\<close>

theorem null_export_aborts_registration:
  "registerCommands
       [(''commands/login.js'', ExportsFunction (\<lambda>prog. Inr (login_default prog))),
        (''commands/broken.js'', ExportsNull),
        publish_module]
       (program0 ''1.0.0'') =
     ([], Inl (cannot_read_property ''default'' ''null'')) \<and>
   runAsync False
       [(''commands/login.js'', ExportsFunction (\<lambda>prog. Inr (login_default prog))),
        (''commands/broken.js'', ExportsNull),
        publish_module]
       [] ''1.0.0'' [''node'', ''exp'', ''publish''] =
     ([ConsoleError (''Cannot read property '' @ CHR 0x27 # ''default'' @ CHR 0x27 # '' of null'')],
      Inl (cannot_read_property ''default'' ''null'')) \<and>
   registerCommands
       [(''commands/login.js'', ExportsFunction (\<lambda>prog. Inr (login_default prog))),
        (''commands/broken.js'', ExportsObject None),
        publish_module]
       (program0 ''1.0.0'') =
     ([LogError (not_properly_formatted ''commands/broken.js'')],
      Inr (publish_default (login_default (program0 ''1.0.0''))))"
  by (simp add: register_module_def publish_module_def seq_def throw_def emit_def done_with_def
      runAsync_def log_and_rethrow_def cannot_read_property_def TypeError_def)

subsection \<open>Dispatch at the entry point\<close>




lemma with_arg_returns: "r = ([], Some (args, unknown)) \<Longrightarrow> with_arg a r = ([], Some (a # args, unknown))"
  by (simp add: with_arg_def)

lemma with_unknown_returns:
  "r = ([], Some (args, unknown)) \<Longrightarrow> with_unknown us r = ([], Some (args, us @ unknown))"
  by (simp add: with_unknown_def)












subsection \<open>The flags of the commands\<close>






end
